theory Spec2Isabelle
  imports Complex_Main
begin

section \<open>JavaScript values used by TimedMsg.vue\<close>

text \<open>
  The component computes with JavaScript numbers.  Every number that reaches
  \<open>getDurationData\<close> is either an integer (a millisecond time stamp from
  \<open>Date.now()\<close> or \<open>Date.prototype.getTime()\<close>, well inside the safe-integer
  range) or \<open>NaN\<close> (the time value of an invalid \<open>Date\<close>).  Integers are
  modelled by \<open>int\<close>; on them JavaScript's \<open>+\<close>, \<open>-\<close>, \<open>*\<close> are exact,
  true division is division of rationals, and \<open>%\<close> on non-negative operands is
  \<open>mod\<close>.
\<close>

datatype jsnum = Num int | NaN

text \<open>\<open>Math.floor\<close> on a rational quotient.\<close>

definition mathFloor :: "rat \<Rightarrow> int" where
  "mathFloor x = \<lfloor>x\<rfloor>"

text \<open>\<open>x < y\<close> and \<open>x <= y\<close> of JavaScript: false as soon as one side is \<open>NaN\<close>.\<close>

fun js_lt :: "jsnum \<Rightarrow> int \<Rightarrow> bool" where
  "js_lt (Num x) y = (x < y)"
| "js_lt NaN y = False"

fun js_le :: "jsnum \<Rightarrow> int \<Rightarrow> bool" where
  "js_le (Num x) y = (x \<le> y)"
| "js_le NaN y = False"

text \<open>
  Number-to-string conversion as a template literal performs it on an integer:
  the decimal digits, with a leading minus sign for a negative number.
\<close>

definition digitChar :: "nat \<Rightarrow> char" where
  "digitChar n = ''0123456789'' ! (n mod 10)"

function natToString :: "nat \<Rightarrow> string" where
  "natToString n =
     (if n < 10 then [digitChar n] else natToString (n div 10) @ [digitChar (n mod 10)])"
  by pat_completeness auto
termination
  by (relation "measure id") auto

declare natToString.simps [simp del]

definition numberToString :: "int \<Rightarrow> string" where
  "numberToString i =
     (if i < 0 then ''-'' @ natToString (nat (- i)) else natToString (nat i))"

section \<open>getDurationData\<close>

text \<open>The object \<open>getDurationData\<close> returns (lines 147 to 159).\<close>

record durationData =
  dynamicDuration :: string
  diff :: jsnum
  endWord :: string
  isPast :: bool
  prefixTxt :: string
  startWord :: string
  timeout :: int

text \<open>The two constant tables of lines 51 and 58.\<close>

definition multipliers :: "int list" where
  "multipliers = [31557600, 2629800, 604800, 86400, 3600, 60]"

definition units :: "string list" where
  "units = [''year'', ''month'', ''week'', ''day'', ''hour'', ''minute'']"

text \<open>
  The local variables the unit loop assigns: \<open>next\<close>, \<open>humanVal\<close> and \<open>unit\<close>
  (\<open>extra\<close> is only read inside the loop body).  \<open>humanVal\<close> holds the unrounded
  quotient until line 139 floors it.
\<close>

record loopVars =
  nextVal :: int
  humanVal :: rat
  unitName :: string

text \<open>
  The loop of lines 125 to 137, walking both tables with one index: the first
  multiplier that \<open>diff\<close> strictly exceeds assigns the three variables and
  breaks; when none does, they keep their initial values.
\<close>

fun findUnit :: "int \<Rightarrow> bool \<Rightarrow> int list \<Rightarrow> string list \<Rightarrow> loopVars \<Rightarrow> loopVars" where
  "findUnit d past (m # ms) (u # us) v =
     (if d > m
      then (let extra = d mod m
            in v\<lparr>nextVal := (if extra > 0 \<and> past = False then extra else m),
                 humanVal := of_int d / of_int m,
                 unitName := u\<rparr>)
      else findUnit d past ms us v)"
| "findUnit d past ms us v = v"

text \<open>
  \<open>getDurationData(now, when, before, after, start, end)\<close>.  \<open>now\<close> is always an
  integer; \<open>when\<close> is the stored time stamp, an integer or \<open>NaN\<close>.

  With \<open>when = NaN\<close> every line is traced by hand: \<open>diff\<close> is \<open>NaN\<close>, so
  \<open>isPast\<close> is false and the else branch of line 116 runs; no comparison of the
  loop succeeds, so \<open>next\<close> stays 1 and \<open>unit\<close> stays \<open>second\<close>;
  \<open>Math.floor(NaN)\<close> is \<open>NaN\<close>, which differs from both 0 and 1, so the text is
  \<open>NaN seconds\<close>.
\<close>

definition getDurationData ::
  "int \<Rightarrow> jsnum \<Rightarrow> string \<Rightarrow> string \<Rightarrow> string \<Rightarrow> string \<Rightarrow> durationData" where
  "getDurationData now whenP beforeP afterP startP endP =
     (case whenP of
        NaN \<Rightarrow>
          \<lparr>dynamicDuration = ''NaN seconds'',
           diff = NaN,
           endWord = '''',
           isPast = False,
           prefixTxt = beforeP,
           startWord = '' '' @ startP,
           timeout = 1 * 1000\<rparr>
      | Num w \<Rightarrow>
          (let diff0 = mathFloor (of_int (w - now) / of_int 1000);
               past = (diff0 < 0);
               d = (if past = True then diff0 * (- 1) else diff0);
               endW = (if past = True then '' '' @ endP else '''');
               prefixT = (if past = True then afterP else beforeP);
               startW = (if past = True then '''' else '' '' @ startP);
               v = findUnit d past multipliers units
                     \<lparr>nextVal = 1, humanVal = of_int d, unitName = ''second''\<rparr>;
               hv = mathFloor (humanVal v);
               nxt = (if d \<noteq> 0 \<and> nextVal v mod 60 = 0 then 1 else nextVal v)
           in \<lparr>dynamicDuration =
                  (if d = 0 then ''now''
                   else numberToString hv @ '' '' @ unitName v
                          @ (if hv \<noteq> 1 then ''s'' else '''')),
                diff = Num d,
                endWord = endW,
                isPast = past,
                prefixTxt = prefixT,
                startWord = (if d = 0 then '''' else startW),
                timeout = nxt * 1000\<rparr>))"

section \<open>The component: props, data and the browser around it\<close>

text \<open>The props of lines 165 to 230 (\<open>this.when\<close> is \<open>prop_when\<close>, and so on).\<close>

record props =
  prop_after :: string
  prop_before :: string
  prop_end :: string
  prop_id :: string
  prop_msgPrefix :: string
  prop_msgSuffix :: string
  prop_noticeAt :: int
  prop_start :: string
  prop_warnAt :: int
  prop_when :: string

text \<open>
  The reactive data of lines 232 to 319 (\<open>this.diff\<close> is \<open>this_diff\<close>, and so
  on).  \<open>this.timeouts\<close> holds the handles \<open>setTimeout\<close> returned.
\<close>

record componentData =
  this_diff :: jsnum
  this_endWord :: string
  this_humanPrefix :: string
  this_dynamicDuration :: string
  this_cutoffDateTime :: string
  this_isPast :: bool
  this_lastUpdated :: int
  this_oldWhen :: string
  this_startWord :: string
  this_timestamp :: jsnum
  this_timeouts :: "nat list"

text \<open>
  What the component changes outside itself: the browser's table of pending
  timers (handle and delay in milliseconds; the callback is always
  \<open>getStringUpdater(this)\<close>), the next handle \<open>setTimeout\<close> will hand out, and
  the lines written with \<open>console.error\<close>.
\<close>

record world =
  pendingTimers :: "(nat \<times> int) list"
  nextHandle :: nat
  consoleErrors :: "string list"

definition setTimeout :: "int \<Rightarrow> world \<Rightarrow> nat \<times> world" where
  "setTimeout delay w =
     (nextHandle w,
      w\<lparr>pendingTimers := pendingTimers w @ [(nextHandle w, delay)],
        nextHandle := Suc (nextHandle w)\<rparr>)"

definition clearTimeout :: "nat \<Rightarrow> world \<Rightarrow> world" where
  "clearTimeout h w = w\<lparr>pendingTimers := filter (\<lambda>(h', ms). h' \<noteq> h) (pendingTimers w)\<rparr>"

definition consoleError :: "string \<Rightarrow> world \<Rightarrow> world" where
  "consoleError msg w = w\<lparr>consoleErrors := consoleErrors w @ [msg]\<rparr>"

text \<open>
  What one call reads from outside: the clock (\<open>Date.now()\<close>), the \<open>Date\<close>
  constructor on a string (\<open>None\<close> when it throws, otherwise the time value of
  the new object, \<open>NaN\<close> for an invalid date), and the two locale formatters
  applied to a time value.
\<close>

record env =
  dateNow :: int
  newDate :: "string \<Rightarrow> jsnum option"
  toLocaleDateString :: "jsnum \<Rightarrow> string"
  toLocaleTimeString :: "jsnum \<Rightarrow> string"

section \<open>wrapClass\<close>

text \<open>The computed property of lines 322 to 335.\<close>

definition wrapClass :: "props \<Rightarrow> componentData \<Rightarrow> string" where
  "wrapClass p c =
     (let tmp = ''timed-msg'';
          output = tmp
      in if this_isPast c = True then output @ '' '' @ tmp @ ''--expired''
         else if prop_warnAt p > 0 \<and> js_le (this_diff c) (prop_warnAt p)
           then output @ '' '' @ tmp @ ''--warning''
         else if prop_noticeAt p > 0 \<and> js_le (this_diff c) (prop_noticeAt p)
           then output @ '' '' @ tmp @ ''--notice''
         else output)"

section \<open>updateStrings and preset\<close>

text \<open>
  The loop of lines 340 to 343: shift the handles off \<open>this.timeouts\<close> one by
  one and clear each.  It returns what is left of the list together with the
  world.
\<close>

fun clearTimeouts :: "nat list \<Rightarrow> world \<Rightarrow> nat list \<times> world" where
  "clearTimeouts [] w = ([], w)"
| "clearTimeouts (t # ts) w = clearTimeouts ts (clearTimeout t w)"

text \<open>
  \<open>updateStrings\<close>, lines 339 to 369.  Line 352 computes a constant \<open>t\<close> that
  is never read, so it is left out.
\<close>

definition updateStrings :: "env \<Rightarrow> props \<Rightarrow> componentData \<times> world \<Rightarrow> componentData \<times> world" where
  "updateStrings e p s =
     (case s of (c, w) \<Rightarrow>
        (case clearTimeouts (this_timeouts c) w of (rest, w1) \<Rightarrow>
           (let c1 = c\<lparr>this_timeouts := rest\<rparr>;
                tmpNow = dateNow e;
                tmp = getDurationData tmpNow (this_timestamp c1)
                        (prop_before p) (prop_after p) (prop_start p) (prop_end p);
                c2 = c1\<lparr>this_dynamicDuration := dynamicDuration tmp,
                        this_endWord := endWord tmp,
                        this_isPast := isPast tmp,
                        this_humanPrefix := prefixTxt tmp,
                        this_startWord := startWord tmp,
                        this_diff := diff tmp\<rparr>
            in if js_lt (diff tmp) 28800
               then (case setTimeout (timeout tmp) w1 of (h, w2) \<Rightarrow>
                       (c2\<lparr>this_timeouts := this_timeouts c2 @ [h],
                           this_lastUpdated := tmpNow\<rparr>, w2))
               else (c2\<lparr>this_lastUpdated := tmpNow\<rparr>, w1))))"

text \<open>
  \<open>preset\<close>, lines 371 to 398.  The \<open>catch\<close> branch logs and returns; the
  \<open>Invalid Date\<close> test of line 383 logs and goes on to line 389.  A \<open>Date\<close>
  prints as \<open>Invalid Date\<close> exactly when its time value is \<open>NaN\<close>, and
  \<open>getTime()\<close> returns the time value.  No other call of the body throws, so
  the method always returns normally; its result is the new state.
\<close>

definition preset :: "env \<Rightarrow> props \<Rightarrow> componentData \<times> world \<Rightarrow> componentData \<times> world" where
  "preset e p s =
     (case s of (c, w) \<Rightarrow>
        if prop_when p \<noteq> this_oldWhen c
        then (let c1 = c\<lparr>this_oldWhen := prop_when p\<rparr>
              in case newDate e (prop_when p) of
                   None \<Rightarrow>
                     (c1, consoleError
                            (''Could not convert '' @ [CHR 0x22] @ prop_when p @ [CHR 0x22]
                               @ '' to Date object'') w)
                 | Some tmp \<Rightarrow>
                     (let w1 = (if tmp = NaN
                                then consoleError
                                       (''Could not convert '' @ [CHR 0x22] @ prop_when p
                                          @ [CHR 0x22]
                                          @ '' to Date object because input is invalid'') w
                                else w);
                          c2 = c1\<lparr>this_cutoffDateTime :=
                                    (toLocaleDateString e tmp @ '' '')
                                      @ (''at '' @ toLocaleTimeString e tmp)\<rparr>;
                          c3 = c2\<lparr>this_timestamp := tmp\<rparr>
                      in updateStrings e p (c3, w1)))
        else (c, w))"

section \<open>Initial values and a concrete run\<close>

text \<open>The object \<open>data()\<close> returns (lines 232 to 319).\<close>

definition initialData :: componentData where
  "initialData =
     \<lparr>this_diff = Num 0,
      this_endWord = '''',
      this_humanPrefix = ''Expires'',
      this_dynamicDuration = '''',
      this_cutoffDateTime = '''',
      this_isPast = False,
      this_lastUpdated = 0,
      this_oldWhen = '''',
      this_startWord = '''',
      this_timestamp = Num 0,
      this_timeouts = []\<rparr>"

text \<open>The props with their declared defaults; only \<open>when\<close> is required.\<close>

definition defaultProps :: "string \<Rightarrow> props" where
  "defaultProps whenP =
     \<lparr>prop_after = ''Expired'',
      prop_before = ''Expires'',
      prop_end = ''ago'',
      prop_id = '''',
      prop_msgPrefix = '''',
      prop_msgSuffix = '''',
      prop_noticeAt = - 1,
      prop_start = ''in'',
      prop_warnAt = - 1,
      prop_when = whenP\<rparr>"

text \<open>
  A browser with no pending timer, and an environment for the examples: the
  clock reads 1700000000000, the string \<open>2023-11-14T22:18:20Z\<close> is the instant
  five minutes later, and every other string is an invalid date, which both
  formatters print as \<open>Invalid Date\<close>.
\<close>

definition emptyWorld :: world where
  "emptyWorld = \<lparr>pendingTimers = [], nextHandle = 1, consoleErrors = []\<rparr>"

definition exampleEnv :: env where
  "exampleEnv =
     \<lparr>dateNow = 1700000000000,
      newDate = (\<lambda>str. if str = ''2023-11-14T22:18:20Z''
                        then Some (Num 1700000300000) else Some NaN),
      toLocaleDateString = (\<lambda>t. case t of NaN \<Rightarrow> ''Invalid Date''
                                   | Num n \<Rightarrow> ''Tuesday, 14 November 2023''),
      toLocaleTimeString = (\<lambda>t. case t of NaN \<Rightarrow> ''Invalid Date''
                                   | Num n \<Rightarrow> ''10:18:20 pm'')\<rparr>"

text \<open>The state after \<open>beforeMount\<close> has run \<open>preset\<close> on a valid cut-off.\<close>

definition mountedState :: "componentData \<times> world" where
  "mountedState =
     preset exampleEnv (defaultProps ''2023-11-14T22:18:20Z'') (initialData, emptyWorld)"

section \<open>The specification's vocabulary\<close>

text \<open>
  The specification's reading of unit selection: the pair of threshold and
  unit name that is the largest one whose threshold the absolute gap strictly
  exceeds.
\<close>

definition largestExceeded :: "int \<Rightarrow> int \<times> string \<Rightarrow> bool" where
  "largestExceeded g mu =
     (mu \<in> set (zip multipliers units) \<and> g > fst mu \<and>
      (\<forall>mu' \<in> set (zip multipliers units). g > fst mu' \<longrightarrow> fst mu' \<le> fst mu))"

text \<open>The rendered duration: magnitude, unit name, and the plural \<open>s\<close>.\<close>

definition rendered :: "int \<Rightarrow> string \<Rightarrow> string" where
  "rendered k u = numberToString k @ '' '' @ u @ (if k \<noteq> 1 then ''s'' else '''')"

text \<open>
  The specification's urgency classification, in its own words, and the class
  attribute that stands for each class.
\<close>

datatype urgency = Expired | Warning | Notice | Normal

definition urgencyClass :: "bool \<Rightarrow> int \<Rightarrow> int \<Rightarrow> int \<Rightarrow> urgency" where
  "urgencyClass past diffSeconds warnThreshold noticeThreshold =
     (if past then Expired
      else if warnThreshold > 0 \<and> diffSeconds \<le> warnThreshold then Warning
      else if noticeThreshold > 0 \<and> diffSeconds \<le> noticeThreshold then Notice
      else Normal)"

fun classAttribute :: "urgency \<Rightarrow> string" where
  "classAttribute Expired = ''timed-msg timed-msg--expired''"
| "classAttribute Warning = ''timed-msg timed-msg--warning''"
| "classAttribute Notice = ''timed-msg timed-msg--notice''"
| "classAttribute Normal = ''timed-msg''"

section \<open>Properties\<close>

lemma mathFloor_quotient: "mathFloor (of_int a / of_int b) = a div b"
  by (simp add: mathFloor_def floor_divide_of_int_eq)

subsection \<open>The unit loop\<close>

lemma findUnit_largest:
  assumes "length ms = length us"
    and "sorted_wrt (>) ms"
    and "(m, u) \<in> set (zip ms us)"
    and "g > m"
    and "\<forall>mu' \<in> set (zip ms us). g > fst mu' \<longrightarrow> fst mu' \<le> m"
  shows "findUnit g past ms us v =
     v\<lparr>nextVal := (if g mod m > 0 \<and> \<not> past then g mod m else m),
       humanVal := of_int g / of_int m,
       unitName := u\<rparr>"
  using assms
proof (induction ms us rule: list_induct2)
  case Nil
  then show ?case by simp
next
  case (Cons x xs y ys)
  show ?case
  proof (cases "g > x")
    case True
    with Cons.prems(4) have "x \<le> m" by simp
    have "(m, u) = (x, y)"
    proof (rule ccontr)
      assume "(m, u) \<noteq> (x, y)"
      with Cons.prems(2) have "(m, u) \<in> set (zip xs ys)" by auto
      then have "m \<in> set xs" by (rule set_zip_leftD)
      with Cons.prems(1) have "x > m" by simp
      with \<open>x \<le> m\<close> show False by simp
    qed
    with True show ?thesis by (simp add: Let_def)
  next
    case False
    with Cons.prems(2,3) have mem: "(m, u) \<in> set (zip xs ys)" by auto
    from Cons.prems(1) have srt: "sorted_wrt (>) xs" by simp
    from Cons.prems(4) have mx: "\<forall>mu' \<in> set (zip xs ys). g > fst mu' \<longrightarrow> fst mu' \<le> m"
      by simp
    from False Cons.IH [OF srt mem Cons.prems(3) mx] show ?thesis by simp
  qed
qed

lemma findUnit_tables:
  assumes "largestExceeded g (m, u)"
  shows "findUnit g past multipliers units v =
     v\<lparr>nextVal := (if g mod m > 0 \<and> \<not> past then g mod m else m),
       humanVal := of_int g / of_int m,
       unitName := u\<rparr>"
proof -
  have len: "length multipliers = length units"
    by (simp add: multipliers_def units_def)
  have srt: "sorted_wrt (>) multipliers"
    by (simp add: multipliers_def)
  from assms have mem: "(m, u) \<in> set (zip multipliers units)"
    and gt: "g > m"
    and mx: "\<forall>mu' \<in> set (zip multipliers units). g > fst mu' \<longrightarrow> fst mu' \<le> m"
    unfolding largestExceeded_def fst_conv by blast+
  show ?thesis by (rule findUnit_largest [OF len srt mem gt mx])
qed

lemma findUnit_small:
  "g \<le> 60 \<Longrightarrow> findUnit g past multipliers units v = v"
  by (simp add: multipliers_def units_def)

lemma largestExceeded_positive:
  assumes "largestExceeded g (m, u)"
  shows "0 < m" and "m mod 60 = 0"
proof -
  from assms have "(m, u) \<in> set (zip multipliers units)"
    unfolding largestExceeded_def by blast
  then have "m \<in> set multipliers" by (rule set_zip_leftD)
  then have "m = 31557600 \<or> m = 2629800 \<or> m = 604800 \<or> m = 86400 \<or> m = 3600 \<or> m = 60"
    by (simp add: multipliers_def)
  then show "0 < m" and "m mod 60 = 0" by auto
qed

subsection \<open>getDurationData on an integer time stamp\<close>

lemma getDurationData_Num:
  "getDurationData now (Num w) b a s e =
     (let diff0 = (w - now) div 1000;
          past = (diff0 < 0);
          d = \<bar>diff0\<bar>;
          v = findUnit d past multipliers units
                \<lparr>nextVal = 1, humanVal = of_int d, unitName = ''second''\<rparr>;
          hv = mathFloor (humanVal v)
      in \<lparr>dynamicDuration = (if d = 0 then ''now'' else rendered hv (unitName v)),
          diff = Num d,
          endWord = (if past then '' '' @ e else ''''),
          isPast = past,
          prefixTxt = (if past then a else b),
          startWord = (if d = 0 \<or> past then '''' else '' '' @ s),
          timeout = (if d \<noteq> 0 \<and> nextVal v mod 60 = 0 then 1 else nextVal v) * 1000\<rparr>)"
proof -
  define \<delta> where "\<delta> = (w - now) div 1000"
  show ?thesis
  proof (cases "\<delta> < 0")
    case True
    then show ?thesis
      unfolding getDurationData_def jsnum.case mathFloor_quotient \<delta>_def [symmetric]
      by (simp add: Let_def rendered_def)
  next
    case False
    then show ?thesis
      unfolding getDurationData_def jsnum.case mathFloor_quotient \<delta>_def [symmetric]
      by (simp add: Let_def rendered_def)
  qed
qed

subsection \<open>Fields of the result\<close>

lemma zip_tables:
  "zip multipliers units =
     [(31557600, ''year''), (2629800, ''month''), (604800, ''week''),
      (86400, ''day''), (3600, ''hour''), (60, ''minute'')]"
  by (simp add: multipliers_def units_def)

lemma findUnit_past_next:
  "nextVal (findUnit d True ms us v) = nextVal v \<or> nextVal (findUnit d True ms us v) \<in> set ms"
  by (induction d True ms us v rule: findUnit.induct) (auto simp: Let_def)

lemma multipliers_mod_60: "m \<in> set multipliers \<Longrightarrow> m mod 60 = 0"
  by (auto simp: multipliers_def)

lemma mathFloor_of_int: "mathFloor (of_int k) = k"
  by (simp add: mathFloor_def)

lemma getDurationData_fields:
  assumes "g = \<bar>(w - now) div 1000\<bar>"
    and "past = ((w - now) div 1000 < 0)"
    and "v = findUnit g past multipliers units
               \<lparr>nextVal = 1, humanVal = of_int g, unitName = ''second''\<rparr>"
  shows "getDurationData now (Num w) b a s e =
     \<lparr>dynamicDuration =
        (if g = 0 then ''now'' else rendered (mathFloor (humanVal v)) (unitName v)),
      diff = Num g,
      endWord = (if past then '' '' @ e else ''''),
      isPast = past,
      prefixTxt = (if past then a else b),
      startWord = (if g = 0 \<or> past then '''' else '' '' @ s),
      timeout = (if g \<noteq> 0 \<and> nextVal v mod 60 = 0 then 1 else nextVal v) * 1000\<rparr>"
  unfolding assms getDurationData_Num Let_def ..

lemma isPast_Num:
  "isPast (getDurationData now (Num w) b a s e) = ((w - now) div 1000 < 0)"
  by (simp add: getDurationData_fields [OF refl refl refl])

lemma dynamicDuration_largest:
  assumes "g = \<bar>(w - now) div 1000\<bar>" and "largestExceeded g (m, u)"
  shows "dynamicDuration (getDurationData now (Num w) b a s e) = rendered (g div m) u"
proof -
  define past where "past = ((w - now) div 1000 < 0)"
  define v where "v = findUnit g past multipliers units
      \<lparr>nextVal = 1, humanVal = of_int g, unitName = ''second''\<rparr>"
  from assms(2) have "0 < m" by (rule largestExceeded_positive)
  moreover from assms(2) have "m < g" unfolding largestExceeded_def by simp
  ultimately have "g \<noteq> 0" by simp
  moreover have "mathFloor (humanVal v) = g div m" and "unitName v = u"
    unfolding v_def findUnit_tables [OF assms(2)] by (simp_all add: mathFloor_quotient)
  ultimately show ?thesis
    by (simp add: getDurationData_fields [OF assms(1) past_def v_def])
qed

lemma timeout_largest:
  assumes "g = \<bar>(w - now) div 1000\<bar>" and "largestExceeded g (m, u)"
  shows "timeout (getDurationData now (Num w) b a s e) =
           (let remainder = g mod m;
                delay = (if 0 \<le> (w - now) div 1000 \<and> remainder > 0 then remainder else m)
            in (if delay mod 60 = 0 then 1 else delay) * 1000)"
proof -
  define past where "past = ((w - now) div 1000 < 0)"
  define v where "v = findUnit g past multipliers units
      \<lparr>nextVal = 1, humanVal = of_int g, unitName = ''second''\<rparr>"
  from assms(2) have "0 < m" by (rule largestExceeded_positive)
  moreover from assms(2) have "m < g" unfolding largestExceeded_def by simp
  ultimately have "g \<noteq> 0" by simp
  moreover have "nextVal v = (if 0 \<le> (w - now) div 1000 \<and> g mod m > 0 then g mod m else m)"
    unfolding v_def findUnit_tables [OF assms(2)] past_def by auto
  ultimately show ?thesis
    by (simp add: getDurationData_fields [OF assms(1) past_def v_def] Let_def)
qed

lemma dynamicDuration_small:
  assumes "g = \<bar>(w - now) div 1000\<bar>" and "g \<le> 60" and "g \<noteq> 0"
  shows "dynamicDuration (getDurationData now (Num w) b a s e) = rendered g ''second''"
proof -
  define past where "past = ((w - now) div 1000 < 0)"
  define v where "v = findUnit g past multipliers units
      \<lparr>nextVal = 1, humanVal = of_int g, unitName = ''second''\<rparr>"
  have "mathFloor (humanVal v) = g" and "unitName v = ''second''"
    unfolding v_def findUnit_small [OF assms(2)] by (simp_all add: mathFloor_of_int)
  with assms(3) show ?thesis
    by (simp add: getDurationData_fields [OF assms(1) past_def v_def])
qed

lemma largestExceeded_minute:
  assumes "60 < g" and "g \<le> 3600"
  shows "largestExceeded g (60, ''minute'')"
  using assms unfolding largestExceeded_def zip_tables by simp

lemma timeout_past:
  assumes "(w - now) div 1000 < 0"
  shows "timeout (getDurationData now (Num w) b a s e) = 1000"
proof -
  define g where "g = \<bar>(w - now) div 1000\<bar>"
  define past where "past = ((w - now) div 1000 < 0)"
  define v where "v = findUnit g past multipliers units
      \<lparr>nextVal = 1, humanVal = of_int g, unitName = ''second''\<rparr>"
  from assms have past: "past = True" and "g \<noteq> 0"
    unfolding past_def g_def by simp_all
  have "nextVal v = 1 \<or> nextVal v \<in> set multipliers"
    using findUnit_past_next [of g multipliers units
        "\<lparr>nextVal = 1, humanVal = of_int g, unitName = ''second''\<rparr>"]
    unfolding v_def past by simp
  then have "(if nextVal v mod 60 = 0 then 1 else nextVal v) = 1"
    using multipliers_mod_60 by auto
  with \<open>g \<noteq> 0\<close> show ?thesis
    by (simp add: getDurationData_fields [OF g_def past_def v_def])
qed

lemma largestExceeded_above_60:
  assumes "largestExceeded g (m, u)"
  shows "60 < g"
proof -
  from assms have "(m, u) \<in> set (zip multipliers units)" and "m < g"
    unfolding largestExceeded_def by simp_all
  from this(1) have "m \<in> set multipliers" by (rule set_zip_leftD)
  then have "60 \<le> m" by (auto simp: multipliers_def)
  with \<open>m < g\<close> show ?thesis by simp
qed

lemma largestExceeded_exists:
  assumes "60 < g"
  shows "\<exists>m u. largestExceeded g (m, u)"
proof -
  consider "g \<le> 3600" | "3600 < g" "g \<le> 86400" | "86400 < g" "g \<le> 604800"
    | "604800 < g" "g \<le> 2629800" | "2629800 < g" "g \<le> 31557600" | "31557600 < g"
    by linarith
  then show ?thesis
  proof cases
    case 1
    with assms have "largestExceeded g (60, ''minute'')"
      unfolding largestExceeded_def zip_tables by simp
    then show ?thesis by blast
  next
    case 2
    then have "largestExceeded g (3600, ''hour'')"
      unfolding largestExceeded_def zip_tables by simp
    then show ?thesis by blast
  next
    case 3
    then have "largestExceeded g (86400, ''day'')"
      unfolding largestExceeded_def zip_tables by simp
    then show ?thesis by blast
  next
    case 4
    then have "largestExceeded g (604800, ''week'')"
      unfolding largestExceeded_def zip_tables by simp
    then show ?thesis by blast
  next
    case 5
    then have "largestExceeded g (2629800, ''month'')"
      unfolding largestExceeded_def zip_tables by simp
    then show ?thesis by blast
  next
    case 6
    then have "largestExceeded g (31557600, ''year'')"
      unfolding largestExceeded_def zip_tables by simp
    then show ?thesis by blast
  qed
qed

lemma dynamicDuration_zero:
  assumes "(w - now) div 1000 = 0"
  shows "dynamicDuration (getDurationData now (Num w) b a s e) = ''now''"
  using assms by (simp add: getDurationData_fields [OF refl refl refl])

section \<open>The claims about getDurationData\<close>

text \<open>
  C5.  When \<open>now\<close> equals the cut-off, whatever the four phrase words are, the
  rendered text is \<open>now\<close> and both the leading connector (\<open>startWord\<close>) and
  the trailing connector (\<open>endWord\<close>) are empty.
\<close>

theorem getDurationData_now:
  "dynamicDuration (getDurationData now (Num now) b a s e) = ''now'' \<and>
   startWord (getDurationData now (Num now) b a s e) = '''' \<and>
   endWord (getDurationData now (Num now) b a s e) = ''''"
  by (simp add: getDurationData_fields [OF refl refl refl])

text \<open>
  C6, as the code has it.  The six thresholds with their units are year
  31557600, month 2629800, week 604800, day 86400, hour 3600 and minute 60.
  For an absolute gap \<open>g\<close>: whenever \<open>(m, u)\<close> is the largest threshold \<open>g\<close>
  strictly exceeds, with its unit, the text is the magnitude \<open>g div m\<close> (a
  non-negative integer), a space, the unit name, and a trailing \<open>s\<close> exactly
  when the magnitude is not 1; such a threshold exists exactly when \<open>g > 60\<close>.
  For \<open>g\<close> from 1 to 60 the unit is \<open>second\<close> and the magnitude is \<open>g\<close>, with
  the same rule for the \<open>s\<close>; for \<open>g = 0\<close> the text is \<open>now\<close>.
\<close>

theorem getDurationData_unit_selection:
  assumes "g = \<bar>(w - now) div 1000\<bar>"
  shows "zip multipliers units =
           [(31557600, ''year''), (2629800, ''month''), (604800, ''week''),
            (86400, ''day''), (3600, ''hour''), (60, ''minute'')] \<and>
         (\<forall>m u. largestExceeded g (m, u) \<longrightarrow>
            dynamicDuration (getDurationData now (Num w) b a s e) =
              numberToString (g div m) @ '' '' @ u @ (if g div m \<noteq> 1 then ''s'' else '''') \<and>
            0 \<le> g div m) \<and>
         ((\<exists>m u. largestExceeded g (m, u)) = (60 < g)) \<and>
         (0 < g \<and> g \<le> 60 \<longrightarrow>
            dynamicDuration (getDurationData now (Num w) b a s e) =
              numberToString g @ '' second'' @ (if g \<noteq> 1 then ''s'' else '''')) \<and>
         (g = 0 \<longrightarrow> dynamicDuration (getDurationData now (Num w) b a s e) = ''now'')"
proof (intro conjI allI impI)
  show "zip multipliers units =
           [(31557600, ''year''), (2629800, ''month''), (604800, ''week''),
            (86400, ''day''), (3600, ''hour''), (60, ''minute'')]"
    by (rule zip_tables)
next
  fix m u
  assume le: "largestExceeded g (m, u)"
  from dynamicDuration_largest [OF assms le]
  show "dynamicDuration (getDurationData now (Num w) b a s e) =
          numberToString (g div m) @ '' '' @ u @ (if g div m \<noteq> 1 then ''s'' else '''')"
    by (simp add: rendered_def)
  from le have "0 < m" by (rule largestExceeded_positive)
  moreover from le have "m < g" unfolding largestExceeded_def by simp
  ultimately show "0 \<le> g div m" by (simp add: pos_imp_zdiv_nonneg_iff)
next
  show "(\<exists>m u. largestExceeded g (m, u)) = (60 < g)"
    using largestExceeded_above_60 largestExceeded_exists by blast
next
  assume "0 < g \<and> g \<le> 60"
  then have "g \<le> 60" and "g \<noteq> 0" by simp_all
  from dynamicDuration_small [OF assms this]
  show "dynamicDuration (getDurationData now (Num w) b a s e) =
          numberToString g @ '' second'' @ (if g \<noteq> 1 then ''s'' else '''')"
    by (simp add: rendered_def)
next
  assume "g = 0"
  with assms have "(w - now) div 1000 = 0" by simp
  then show "dynamicDuration (getDurationData now (Num w) b a s e) = ''now''"
    by (rule dynamicDuration_zero)
qed

theorem getDurationData_unit_selection_witness:
  "largestExceeded 3661 (3600, ''hour'') \<and>
   dynamicDuration (getDurationData 0 (Num 3661000) ''Expires'' ''Expired'' ''in'' ''ago'')
     = ''1 hour''"
proof -
  have g: "(3661::int) = \<bar>(3661000 - 0) div 1000\<bar>" by simp
  have h: "largestExceeded 3661 (3600, ''hour'')"
    unfolding largestExceeded_def zip_tables by simp
  have n: "numberToString (3661 div 3600) = ''1''" by code_simp
  from getDurationData_unit_selection [OF g, of "''Expires''" "''Expired''" "''in''" "''ago''"]
  have "\<forall>m u. largestExceeded 3661 (m, u) \<longrightarrow>
          dynamicDuration (getDurationData 0 (Num 3661000) ''Expires'' ''Expired'' ''in'' ''ago'') =
            numberToString (3661 div m) @ '' '' @ u @ (if 3661 div m \<noteq> 1 then ''s'' else '''') \<and>
          0 \<le> 3661 div m"
    by blast
  with h have "dynamicDuration (getDurationData 0 (Num 3661000) ''Expires'' ''Expired'' ''in'' ''ago'') =
            numberToString (3661 div 3600) @ '' '' @ ''hour'' @
              (if 3661 div 3600 \<noteq> (1::int) then ''s'' else '''')"
    by blast
  with h show ?thesis unfolding n by simp
qed

theorem getDurationData_30_seconds:
  "dynamicDuration (getDurationData 0 (Num 30000) ''Expires'' ''Expired'' ''in'' ''ago'')
     = ''30 seconds'' \<and>
   ''second'' \<notin> set units \<and>
   30 \<le> Min (set multipliers)"
  by code_simp

text \<open>
  C2.  When the absolute gap \<open>\<bar>\<delta>\<bar>\<close> strictly exceeds a threshold and \<open>m\<close> is the
  chosen (largest exceeded) one: with \<open>remainder = \<bar>\<delta>\<bar> mod m\<close>, the delay in
  seconds is \<open>remainder\<close> when the cut-off is in the future and the remainder is
  positive, and \<open>m\<close> otherwise; a delay that is a multiple of 60 becomes 1; the
  result is that delay in milliseconds, and it is at least 1000.
\<close>

theorem getDurationData_next_delay:
  assumes "\<delta> = (w - now) div 1000" and "largestExceeded \<bar>\<delta>\<bar> (m, u)"
  shows "timeout (getDurationData now (Num w) b a s e) =
           (let remainder = \<bar>\<delta>\<bar> mod m;
                delay = (if 0 \<le> \<delta> \<and> remainder > 0 then remainder else m)
            in (if delay mod 60 = 0 then 1 else delay) * 1000) \<and>
         1000 \<le> timeout (getDurationData now (Num w) b a s e)"
proof -
  have g: "\<bar>\<delta>\<bar> = \<bar>(w - now) div 1000\<bar>" by (simp add: assms(1))
  have eq: "timeout (getDurationData now (Num w) b a s e) =
           (let remainder = \<bar>\<delta>\<bar> mod m;
                delay = (if 0 \<le> \<delta> \<and> remainder > 0 then remainder else m)
            in (if delay mod 60 = 0 then 1 else delay) * 1000)"
    using timeout_largest [OF g assms(2)] by (simp add: assms(1))
  from assms(2) have "0 < m" by (rule largestExceeded_positive)
  then have "1000 \<le> (let remainder = \<bar>\<delta>\<bar> mod m;
                delay = (if 0 \<le> \<delta> \<and> remainder > 0 then remainder else m)
            in (if delay mod 60 = 0 then 1 else delay) * 1000)"
    by (auto simp: Let_def)
  with eq show ?thesis by simp
qed

theorem getDurationData_next_delay_witness:
  "largestExceeded \<bar>3661\<bar> (3600, ''hour'') \<and>
   timeout (getDurationData 0 (Num 3661000) ''Expires'' ''Expired'' ''in'' ''ago'') = 61000"
proof -
  have d: "(3661::int) = (3661000 - 0) div 1000" by simp
  have h: "largestExceeded \<bar>3661\<bar> (3600, ''hour'')"
    unfolding largestExceeded_def zip_tables by simp
  from getDurationData_next_delay [OF d h, of "''Expires''" "''Expired''" "''in''" "''ago''"] h
  show ?thesis by (simp add: Let_def)
qed

text \<open>
  C10.  Whenever the result says the cut-off is in the past, the returned
  timeout is exactly 1000 milliseconds.
\<close>

theorem getDurationData_past_timeout:
  assumes "isPast (getDurationData now whenP b a s e)"
  shows "timeout (getDurationData now whenP b a s e) = 1000"
proof (cases whenP)
  case (Num w)
  with assms have "(w - now) div 1000 < 0" by (simp add: isPast_Num)
  then show ?thesis unfolding Num by (rule timeout_past)
next
  case NaN
  with assms show ?thesis by (simp add: getDurationData_def)
qed

theorem getDurationData_past_timeout_witness:
  "isPast (getDurationData 0 (Num (- 90000000)) ''Expires'' ''Expired'' ''in'' ''ago'') \<and>
   timeout (getDurationData 0 (Num (- 90000000)) ''Expires'' ''Expired'' ''in'' ''ago'') = 1000"
proof -
  have p: "isPast (getDurationData 0 (Num (- 90000000)) ''Expires'' ''Expired'' ''in'' ''ago'')"
    by (simp add: isPast_Num)
  from getDurationData_past_timeout [OF p] p show ?thesis by simp
qed

text \<open>
  C7, as the code has it.  With a gap of \<open>gap\<close> milliseconds, \<open>gap \<ge> 0\<close>: the call
  with the cut-off \<open>gap\<close> after \<open>now\<close> is never past, and the symmetric call is
  past exactly when \<open>gap > 0\<close>.
\<close>

theorem getDurationData_isPast_symmetric:
  assumes "0 \<le> gap"
  shows "isPast (getDurationData now (Num (now + gap)) b a s e) = False \<and>
         isPast (getDurationData (now + gap) (Num now) b a s e) = (0 < gap)"
proof -
  from assms have "0 \<le> (now + gap - now) div 1000" by simp
  moreover have "((now - (now + gap)) div 1000 < 0) = (0 < gap)"
    by (simp add: pos_imp_zdiv_neg_iff)
  ultimately show ?thesis by (simp add: isPast_Num not_less del: add_diff_cancel_left')
qed

theorem getDurationData_isPast_symmetric_witness:
  "isPast (getDurationData 1000 (Num (1000 + 5000)) ''Expires'' ''Expired'' ''in'' ''ago'') = False \<and>
   isPast (getDurationData (1000 + 5000) (Num 1000) ''Expires'' ''Expired'' ''in'' ''ago'') = True"
proof -
  have h: "(0::int) \<le> 5000" by simp
  from getDurationData_isPast_symmetric [OF h, of 1000] show ?thesis by simp
qed

theorem getDurationData_isPast_zero_gap:
  "\<not> (isPast (getDurationData 1000 (Num (1000 + 0)) ''Expires'' ''Expired'' ''in'' ''ago'') = False \<and>
      isPast (getDurationData (1000 + 0) (Num 1000) ''Expires'' ''Expired'' ''in'' ''ago'') = True)"
  by (simp add: isPast_Num)

text \<open>
  C1, as the code has it.  For a positive absolute gap \<open>g\<close> of at most 3600
  seconds: above 60 the unit is \<open>minute\<close> with magnitude \<open>g div 60\<close>; from 1 to
  60 the unit is \<open>second\<close> with magnitude \<open>g\<close>.
\<close>

theorem getDurationData_below_hour:
  assumes "g = \<bar>(w - now) div 1000\<bar>" and "0 < g" and "g \<le> 3600"
  shows "dynamicDuration (getDurationData now (Num w) b a s e) =
           (if 60 < g
            then numberToString (g div 60) @ '' minute'' @ (if g div 60 \<noteq> 1 then ''s'' else '''')
            else numberToString g @ '' second'' @ (if g \<noteq> 1 then ''s'' else ''''))"
proof (cases "60 < g")
  case True
  then have "largestExceeded g (60, ''minute'')"
    using assms(3) by (rule largestExceeded_minute)
  from dynamicDuration_largest [OF assms(1) this] True show ?thesis
    by (simp add: rendered_def)
next
  case False
  then have "g \<le> 60" by simp
  moreover from assms(2) have "g \<noteq> 0" by simp
  ultimately show ?thesis
    using dynamicDuration_small [OF assms(1)] False by (simp add: rendered_def)
qed

theorem getDurationData_below_hour_witness:
  "dynamicDuration (getDurationData 0 (Num 45000) ''Expires'' ''Expired'' ''in'' ''ago'')
     = ''45 seconds''"
proof -
  have g: "(45::int) = \<bar>(45000 - 0) div 1000\<bar>" by simp
  have n: "numberToString 45 = ''45''" by code_simp
  from getDurationData_below_hour [OF g, of "''Expires''" "''Expired''" "''in''" "''ago''"]
  show ?thesis unfolding n by simp
qed

theorem getDurationData_45_seconds:
  "dynamicDuration (getDurationData 0 (Num 45000) ''Expires'' ''Expired'' ''in'' ''ago'')
     = ''45 seconds'' \<and>
   dynamicDuration (getDurationData 0 (Num 45000) ''Expires'' ''Expired'' ''in'' ''ago'')
     \<noteq> ''0 minutes''"
  by code_simp

section \<open>The claims about the component\<close>

subsection \<open>updateStrings and preset, step by step\<close>

lemma clearTimeouts_eq:
  "clearTimeouts ts w =
     ([], w\<lparr>pendingTimers := filter (\<lambda>(h, ms). h \<notin> set ts) (pendingTimers w)\<rparr>)"
proof (induction ts arbitrary: w)
  case Nil
  then show ?case by simp
next
  case (Cons t ts)
  have "filter (\<lambda>(h, ms). h \<notin> set ts) (filter (\<lambda>(h', ms). h' \<noteq> t) (pendingTimers w)) =
        filter (\<lambda>(h, ms). h \<notin> set (t # ts)) (pendingTimers w)"
    by (induction "pendingTimers w") (auto intro: filter_cong)
  with Cons show ?case by (simp add: clearTimeout_def)
qed

lemma updateStrings_eq:
  "updateStrings e p (c, w) =
     (let w1 = w\<lparr>pendingTimers :=
                   filter (\<lambda>(h, ms). h \<notin> set (this_timeouts c)) (pendingTimers w)\<rparr>;
          tmp = getDurationData (dateNow e) (this_timestamp c)
                  (prop_before p) (prop_after p) (prop_start p) (prop_end p);
          c2 = c\<lparr>this_dynamicDuration := dynamicDuration tmp,
                 this_endWord := endWord tmp,
                 this_isPast := isPast tmp,
                 this_humanPrefix := prefixTxt tmp,
                 this_startWord := startWord tmp,
                 this_diff := diff tmp,
                 this_lastUpdated := dateNow e\<rparr>
      in if js_lt (diff tmp) 28800
         then (c2\<lparr>this_timeouts := [nextHandle w]\<rparr>,
               w1\<lparr>pendingTimers := pendingTimers w1 @ [(nextHandle w, timeout tmp)],
                  nextHandle := Suc (nextHandle w)\<rparr>)
         else (c2\<lparr>this_timeouts := []\<rparr>, w1))"
  by (simp add: updateStrings_def clearTimeouts_eq setTimeout_def Let_def)

lemma diff_Num:
  "diff (getDurationData now (Num w) b a s e) = Num \<bar>(w - now) div 1000\<bar>"
  by (simp add: getDurationData_fields [OF refl refl refl])

lemma updateStrings_oldWhen:
  "this_oldWhen (fst (updateStrings e p (c, w))) = this_oldWhen c"
  by (simp add: updateStrings_eq Let_def)

lemma updateStrings_NaN_arms_none:
  assumes "this_timestamp c = NaN"
  shows "this_timeouts (fst (updateStrings e p (c, w))) = []"
    and "pendingTimers (snd (updateStrings e p (c, w))) =
           filter (\<lambda>(h, ms). h \<notin> set (this_timeouts c)) (pendingTimers w)"
  using assms by (simp_all add: updateStrings_eq getDurationData_def Let_def)

lemma preset_unchanged_when:
  "prop_when p = this_oldWhen c \<Longrightarrow> preset e p (c, w) = (c, w)"
  by (simp add: preset_def)

lemma preset_oldWhen:
  "this_oldWhen (fst (preset e p s)) = prop_when p"
proof (cases s)
  case (Pair c w)
  show ?thesis
    unfolding Pair preset_def
    by (simp add: Let_def updateStrings_oldWhen split: option.split)
qed

lemma preset_throw:
  assumes "prop_when p \<noteq> this_oldWhen c" and "newDate e (prop_when p) = None"
  shows "preset e p (c, w) =
     (c\<lparr>this_oldWhen := prop_when p\<rparr>,
      w\<lparr>consoleErrors := consoleErrors w @
          [''Could not convert '' @ [CHR 0x22] @ prop_when p @ [CHR 0x22] @ '' to Date object'']\<rparr>)"
  using assms by (simp add: preset_def consoleError_def)

lemma preset_invalid:
  assumes "prop_when p \<noteq> this_oldWhen c" and "newDate e (prop_when p) = Some NaN"
  shows "this_timestamp (fst (preset e p (c, w))) = NaN"
    and "this_timeouts (fst (preset e p (c, w))) = []"
    and "this_dynamicDuration (fst (preset e p (c, w))) = ''NaN seconds''"
    and "pendingTimers (snd (preset e p (c, w))) =
           filter (\<lambda>(h, ms). h \<notin> set (this_timeouts c)) (pendingTimers w)"
  using assms
  by (simp_all add: preset_def updateStrings_eq getDurationData_def consoleError_def Let_def)

lemma classAttribute_inj: "inj classAttribute"
proof (rule injI)
  fix x y
  assume "classAttribute x = classAttribute y"
  then show "x = y" by (cases x; cases y) simp_all
qed

subsection \<open>The claims\<close>

text \<open>
  C4.  A refresh on an integer time stamp at absolute gap \<open>g\<close> first cancels
  every timer whose handle is in \<open>this.timeouts\<close>; then, when \<open>g < 28800\<close>, it
  arms exactly one new timer, for the delay \<open>getDurationData\<close> returned, and
  keeps its handle as the only one; when \<open>g \<ge> 28800\<close> it arms none and keeps no
  handle.
\<close>

theorem updateStrings_arms_one_timer:
  assumes "this_timestamp c = Num ts"
    and "g = \<bar>(ts - dateNow e) div 1000\<bar>"
    and "updateStrings e p (c, w) = (c', w')"
  shows "pendingTimers w' =
           filter (\<lambda>(h, ms). h \<notin> set (this_timeouts c)) (pendingTimers w) @
           (if g < 28800
            then [(nextHandle w,
                   timeout (getDurationData (dateNow e) (Num ts)
                              (prop_before p) (prop_after p) (prop_start p) (prop_end p)))]
            else []) \<and>
         this_timeouts c' = (if g < 28800 then [nextHandle w] else [])"
proof (cases "g < 28800")
  case True
  with assms(1,2) have "js_lt (diff (getDurationData (dateNow e) (this_timestamp c)
      (prop_before p) (prop_after p) (prop_start p) (prop_end p))) 28800"
    by (simp add: diff_Num)
  with assms(3) True show ?thesis
    unfolding updateStrings_eq Let_def assms(1) by auto
next
  case False
  with assms(1,2) have "\<not> js_lt (diff (getDurationData (dateNow e) (this_timestamp c)
      (prop_before p) (prop_after p) (prop_start p) (prop_end p))) 28800"
    by (simp add: diff_Num)
  with assms(3) False show ?thesis
    unfolding updateStrings_eq Let_def assms(1) by auto
qed

theorem updateStrings_arms_one_timer_witness:
  "pendingTimers (snd (updateStrings exampleEnv (defaultProps ''2023-11-14T22:18:20Z'')
       (initialData\<lparr>this_timestamp := Num 1700000300000, this_timeouts := [7]\<rparr>,
        emptyWorld\<lparr>pendingTimers := [(7, 5000)], nextHandle := 8\<rparr>))) = [(8, 1000)] \<and>
   this_timeouts (fst (updateStrings exampleEnv (defaultProps ''2023-11-14T22:18:20Z'')
       (initialData\<lparr>this_timestamp := Num 1700000300000, this_timeouts := [7]\<rparr>,
        emptyWorld\<lparr>pendingTimers := [(7, 5000)], nextHandle := 8\<rparr>))) = [8]"
proof -
  define c where "c = initialData\<lparr>this_timestamp := Num 1700000300000, this_timeouts := [7]\<rparr>"
  define w where "w = emptyWorld\<lparr>pendingTimers := [(7, 5000)], nextHandle := 8\<rparr>"
  define p where "p = defaultProps ''2023-11-14T22:18:20Z''"
  have ts: "this_timestamp c = Num 1700000300000" by (simp add: c_def)
  have g: "(300::int) = \<bar>(1700000300000 - dateNow exampleEnv) div 1000\<bar>"
    by (simp add: exampleEnv_def)
  have t: "timeout (getDurationData (dateNow exampleEnv) (Num 1700000300000)
             (prop_before p) (prop_after p) (prop_start p) (prop_end p)) = 1000"
    unfolding p_def by code_simp
  have "updateStrings exampleEnv p (c, w) =
          (fst (updateStrings exampleEnv p (c, w)), snd (updateStrings exampleEnv p (c, w)))"
    by simp
  from updateStrings_arms_one_timer [OF ts g this]
  show ?thesis
    unfolding t unfolding c_def w_def p_def
    by (simp add: initialData_def emptyWorld_def)
qed

text \<open>
  C8.  On an integer \<open>diff\<close>, the class attribute \<open>wrapClass\<close> computes is the
  one of the specification's urgency class: expired when past; else warning
  when the warn threshold is positive and \<open>diff\<close> is at most it; else notice
  when the notice threshold is positive and \<open>diff\<close> is at most it; else normal.
\<close>

theorem wrapClass_urgencyClass:
  assumes "this_diff c = Num diffSeconds"
  shows "wrapClass p c =
           classAttribute
             (urgencyClass (this_isPast c) diffSeconds (prop_warnAt p) (prop_noticeAt p))"
  using assms by (simp add: wrapClass_def urgencyClass_def Let_def)

theorem wrapClass_urgencyClass_witness:
  "urgencyClass False 1800 3600 7200 = Warning \<and>
   wrapClass ((defaultProps ''2023-11-14T22:18:20Z'')\<lparr>prop_noticeAt := 7200, prop_warnAt := 3600\<rparr>)
             (initialData\<lparr>this_diff := Num 1800\<rparr>)
     = ''timed-msg timed-msg--warning''"
proof -
  have d: "this_diff (initialData\<lparr>this_diff := Num 1800\<rparr>) = Num 1800" by simp
  have u: "urgencyClass False 1800 3600 7200 = Warning" by (simp add: urgencyClass_def)
  from wrapClass_urgencyClass [OF d,
      of "(defaultProps ''2023-11-14T22:18:20Z'')\<lparr>prop_noticeAt := 7200, prop_warnAt := 3600\<rparr>"] u
  show ?thesis by (simp add: initialData_def defaultProps_def)
qed

text \<open>
  C9.  \<open>preset\<close> with a cut-off string equal to the stored one returns the
  component and the world as they were: no timer cancelled or armed, no field
  changed, nothing logged.  After any call of \<open>preset\<close> the stored string is
  the prop, so a second call with the same props changes nothing, whatever
  the clock and the parser then are.
\<close>

theorem preset_same_when_noop:
  "(prop_when p = this_oldWhen c \<longrightarrow> preset e p (c, w) = (c, w)) \<and>
   preset e' p (preset e p s) = preset e p s"
proof -
  have "preset e' p (preset e p s) = preset e p s"
    using preset_unchanged_when [of p "fst (preset e p s)" e' "snd (preset e p s)"]
    by (simp add: preset_oldWhen)
  then show ?thesis by (simp add: preset_unchanged_when)
qed

theorem preset_same_when_noop_witness:
  "this_oldWhen (fst mountedState) = ''2023-11-14T22:18:20Z'' \<and>
   preset exampleEnv (defaultProps ''2023-11-14T22:18:20Z'') mountedState = mountedState"
proof -
  have o: "this_oldWhen (fst mountedState) = ''2023-11-14T22:18:20Z''"
    unfolding mountedState_def by (simp add: preset_oldWhen defaultProps_def)
  from preset_same_when_noop [of "defaultProps ''2023-11-14T22:18:20Z''" "fst mountedState"
      exampleEnv "snd mountedState" exampleEnv "(initialData, emptyWorld)"] o
  show ?thesis by (simp add: defaultProps_def)
qed

text \<open>
  C3.  A mounted component with one pending timer is handed the cut-off
  string \<open>not a date\<close>.  The error is logged, and then the stored time stamp
  becomes \<open>NaN\<close>, the displayed duration \<open>NaN seconds\<close>, the tooltip
  \<open>Invalid Date at Invalid Date\<close>, and the pending timer is cancelled with no
  new one armed.
\<close>

theorem preset_invalid_date_overwrites:
  "this_timestamp (fst mountedState) = Num 1700000300000 \<and>
   this_dynamicDuration (fst mountedState) = ''5 minutes'' \<and>
   this_timeouts (fst mountedState) = [1] \<and>
   pendingTimers (snd mountedState) = [(1, 1000)] \<and>
   this_timestamp (fst (preset exampleEnv (defaultProps ''not a date'') mountedState)) = NaN \<and>
   this_dynamicDuration (fst (preset exampleEnv (defaultProps ''not a date'') mountedState))
     = ''NaN seconds'' \<and>
   this_cutoffDateTime (fst (preset exampleEnv (defaultProps ''not a date'') mountedState))
     = ''Invalid Date at Invalid Date'' \<and>
   this_timeouts (fst (preset exampleEnv (defaultProps ''not a date'') mountedState)) = [] \<and>
   pendingTimers (snd (preset exampleEnv (defaultProps ''not a date'') mountedState)) = [] \<and>
   length (consoleErrors (snd (preset exampleEnv (defaultProps ''not a date'') mountedState))) = 1"
  by code_simp

end
